theory Spec2Isabelle
  imports Main
begin

section \<open>Data model\<close>

text \<open>
  The NATS operator: package \<open>k8sutil\<close> (pod and service templating, pod creation) and
  package \<open>controller\<close> (configuration, the watch stream and the supervisor's event
  loop). Go structs are records, Go maps are partial functions, pointers that the code
  never compares are left out, and every \<open>error\<close> value is a constructor of one datatype.
\<close>

subsection \<open>Errors\<close>

text \<open>
  \<open>EOF\<close> is \<open>io.EOF\<close>; \<open>ErrVersionOutdated\<close> is the controller's exported sentinel;
  \<open>ErrWaitTimeout\<close> is what \<open>watch.Until\<close> returns at its deadline; \<open>StatusError\<close>
  is an API status error with its code and reason; \<open>External\<close> is any other error of
  the transport or the client library. The remaining constructors are the errors that
  the controller builds itself with \<open>fmt.Errorf\<close> and \<open>errors.New\<close>, with the values
  that are formatted into the message.
\<close>

datatype error =
    EOF
  | ErrVersionOutdated
  | ErrWaitTimeout
  | StatusError int string
  | External string
  | ErrNotSupported string
  | ErrCreateTPR error
  | ErrInvalidStatusCode string
  | ErrDecodeRawEvent string
  | ErrDecodeStatus string string
  | ErrUnmarshalCluster string string

subsection \<open>Cluster declarations (package spec)\<close>

record ClusterSpec =
  Size :: int
  Version :: string
  Paused :: bool
  AntiAffinity :: bool
  NodeSelector :: "(string \<times> string) list"

record ObjectMeta =
  Name :: string
  GenerateName :: string
  ResourceVersion :: string
  Labels :: "string \<rightharpoonup> string"
  Annotations :: "string \<rightharpoonup> string"

record NatsCluster =
  ObjectMeta :: ObjectMeta
  Spec :: ClusterSpec

subsection \<open>Pods and services (the orchestrator's API types)\<close>

datatype RestartPolicy = RestartPolicyAlways | RestartPolicyOnFailure | RestartPolicyNever

datatype Protocol = ProtocolTCP | ProtocolUDP

datatype IntOrString = FromInt int | FromString string

record Container =
  Image :: string
  Args :: "string list"

text \<open>
  A node selector is a Go map that the code only measures and hands on: it is the list
  of its entries, and its \<open>len\<close> is the length of the list. \<open>NodeSelector\<close> of a pod is
  \<open>None\<close> while the Go field is its zero value (a nil map).
  \<open>AntiAffinityOf\<close> holds the placement rule of a pod: the cluster whose peers must not
  share a node with it.
\<close>

record PodSpec =
  Containers :: "Container list"
  RestartPolicy :: RestartPolicy
  NodeSelector :: "(string \<times> string) list option"
  AntiAffinityOf :: "string option"

record Pod =
  ObjectMeta :: ObjectMeta
  Spec :: PodSpec

record ServicePort =
  Name :: string
  Port :: int
  TargetPort :: IntOrString
  Protocol :: Protocol

record ServiceSpec =
  ClusterIP :: string
  Ports :: "ServicePort list"
  Selector :: "string \<rightharpoonup> string"

record Service =
  ObjectMeta :: ObjectMeta
  Spec :: ServiceSpec

text \<open>
  Package \<open>constants\<close> is not part of the sources at hand: the three port numbers are
  a parameter of every function that reads them.
\<close>

record constants =
  ClientPort :: int
  ClusterPort :: int
  MonitoringPort :: int

section \<open>Package k8sutil\<close>

subsection \<open>Formatting\<close>

text \<open>The verb \<open>%d\<close> of \<open>fmt.Sprintf\<close>: decimal digits, with a minus sign below zero.\<close>

function nat_dec :: "nat \<Rightarrow> string" where
  "nat_dec n =
     (if n < 10 then [''0123456789'' ! n]
      else nat_dec (n div 10) @ [''0123456789'' ! (n mod 10)])"
  by pat_completeness auto
termination
  by (relation "measure id") auto

declare nat_dec.simps [simp del]

definition int_dec :: "int \<Rightarrow> string" where
  "int_dec i = (if i < 0 then ''-'' @ nat_dec (nat (- i)) else nat_dec (nat i))"

subsection \<open>Version annotation and image\<close>

definition versionAnnotationKey :: string where
  "versionAnnotationKey = ''nats.version''"

definition ClusterIPNone :: string where
  "ClusterIPNone = ''None''"

text \<open>
  Reading a missing key of a Go map gives the zero value, the empty string.
\<close>

definition GetNATSVersion :: "Pod \<Rightarrow> string" where
  "GetNATSVersion pod =
     (case Annotations (Pod.ObjectMeta pod) versionAnnotationKey of
        None \<Rightarrow> ''''
      | Some v \<Rightarrow> v)"

definition SetNATSVersion :: "Pod \<Rightarrow> string \<Rightarrow> Pod" where
  "SetNATSVersion pod version =
     pod\<lparr>Pod.ObjectMeta := (Pod.ObjectMeta pod)
       \<lparr>Annotations := (Annotations (Pod.ObjectMeta pod))(versionAnnotationKey \<mapsto> version)\<rparr>\<rparr>"

definition MakeNATSImage :: "string \<Rightarrow> string" where
  "MakeNATSImage version = ''nats:'' @ version"

definition PodWithNodeSelector :: "Pod \<Rightarrow> (string \<times> string) list \<Rightarrow> Pod" where
  "PodWithNodeSelector p ns = p\<lparr>Pod.Spec := (Pod.Spec p)\<lparr>PodSpec.NodeSelector := Some ns\<rparr>\<rparr>"

subsection \<open>Service templates\<close>

definition makeServiceSpec :: "constants \<Rightarrow> string \<Rightarrow> Service" where
  "makeServiceSpec K clusterName =
     (let labels = [''app'' \<mapsto> ''nats'', ''nats_cluster'' \<mapsto> clusterName] in
      \<lparr>Service.ObjectMeta =
         \<lparr>ObjectMeta.Name = clusterName, GenerateName = '''', ResourceVersion = '''',
          Labels = labels, Annotations = Map.empty\<rparr>,
       Service.Spec =
         \<lparr>ClusterIP = ClusterIPNone,
          Ports =
            [\<lparr>ServicePort.Name = ''client'', Port = ClientPort K,
              TargetPort = FromInt (ClientPort K), Protocol = ProtocolTCP\<rparr>],
          Selector = labels\<rparr>\<rparr>)"

definition makeMgmtServiceSpec :: "constants \<Rightarrow> string \<Rightarrow> Service" where
  "makeMgmtServiceSpec K clusterName =
     (let labels = [''app'' \<mapsto> ''nats-mgmt'', ''nats_cluster'' \<mapsto> clusterName] in
      \<lparr>Service.ObjectMeta =
         \<lparr>ObjectMeta.Name = clusterName @ ''-mgmt'', GenerateName = '''', ResourceVersion = '''',
          Labels = labels, Annotations = Map.empty\<rparr>,
       Service.Spec =
         \<lparr>ClusterIP = ClusterIPNone,
          Ports =
            [\<lparr>ServicePort.Name = ''cluster'', Port = ClusterPort K,
              TargetPort = FromInt (ClusterPort K), Protocol = ProtocolTCP\<rparr>,
             \<lparr>ServicePort.Name = ''monitoring'', Port = MonitoringPort K,
              TargetPort = FromInt (MonitoringPort K), Protocol = ProtocolTCP\<rparr>],
          Selector = labels\<rparr>\<rparr>)"

subsection \<open>Pod template\<close>

text \<open>
  Modelled from the spec: \<open>natsPodContainer\<close> is called by \<open>MakePodSpec\<close> and is not in
  the sources at hand. The specification says of the pods emitted: one container
  \<open>nats:<version>\<close> with the three arguments that \<open>MakePodSpec\<close> builds.
\<close>

definition natsPodContainer :: "string list \<Rightarrow> string \<Rightarrow> Container" where
  "natsPodContainer args version = \<lparr>Image = MakeNATSImage version, Args = args\<rparr>"

text \<open>
  Modelled from the spec: \<open>podWithAntiAffinity\<close> is called by \<open>MakePodSpec\<close> and is not
  in the sources at hand. The specification says that, when \<open>AntiAffinity\<close> is set,
  \<open>MakePodSpec\<close> emits placement rules requesting one peer per node.
\<close>

definition podWithAntiAffinity :: "Pod \<Rightarrow> string \<Rightarrow> Pod" where
  "podWithAntiAffinity pod clusterName =
     pod\<lparr>Pod.Spec := (Pod.Spec pod)\<lparr>AntiAffinityOf := Some clusterName\<rparr>\<rparr>"

definition MakePodSpec :: "constants \<Rightarrow> string \<Rightarrow> ClusterSpec \<Rightarrow> Pod" where
  "MakePodSpec K clusterName cs =
     (let args =
        [''--cluster=nats://0.0.0.0:'' @ int_dec (ClusterPort K),
         ''--http_port='' @ int_dec (MonitoringPort K),
         ''--routes=nats://'' @ (clusterName @ ''-mgmt'') @ '':'' @ int_dec (ClusterPort K)];
        pod =
          \<lparr>Pod.ObjectMeta =
             \<lparr>ObjectMeta.Name = '''', GenerateName = clusterName @ ''-'', ResourceVersion = '''',
              Labels = [''app'' \<mapsto> ''nats'', ''nats_cluster'' \<mapsto> clusterName],
              Annotations = Map.empty\<rparr>,
           Pod.Spec =
             \<lparr>Containers = [natsPodContainer args (Version cs)],
              RestartPolicy = RestartPolicyNever,
              PodSpec.NodeSelector = None,
              AntiAffinityOf = None\<rparr>\<rparr>;
        pod = SetNATSVersion pod (Version cs);
        pod = (if AntiAffinity cs then podWithAntiAffinity pod clusterName else pod);
        pod = (if length (ClusterSpec.NodeSelector cs) \<noteq> 0
               then PodWithNodeSelector pod (ClusterSpec.NodeSelector cs) else pod)
      in pod)"

subsection \<open>Creating a pod and waiting for it\<close>

text \<open>
  The orchestrator's client is the environment of \<open>CreateAndWaitPod\<close>: what its calls
  answer is a parameter (\<open>pods_create\<close> for \<open>Pods(ns).Create\<close>, \<open>pods_watch\<close> for
  \<open>Pods(ns).Watch\<close> on a single object name, giving a watcher, and \<open>watch_until\<close> for
  \<open>watch.Until\<close> with the condition \<open>PodRunning\<close>), and the function returns the calls
  it has issued, in order, together with its Go result (\<open>None\<close> is a nil error).
\<close>

datatype api_call =
    PodsCreate string Pod
  | PodsGet string string
  | PodsUpdate string Pod
  | PodsDelete string string
  | PodsWatch string string
  | WatchUntil int nat

record kube_client =
  pods_create :: "string \<Rightarrow> Pod \<Rightarrow> error + Pod"
  pods_watch :: "string \<Rightarrow> string \<Rightarrow> error + nat"
  watch_until :: "int \<Rightarrow> nat \<Rightarrow> error option"

definition CreateAndWaitPod ::
  "kube_client \<Rightarrow> string \<Rightarrow> Pod \<Rightarrow> int \<Rightarrow> api_call list \<times> error option" where
  "CreateAndWaitPod kclient ns pod timeout =
     (case pods_create kclient ns pod of
        Inl err \<Rightarrow> ([PodsCreate ns pod], Some err)
      | Inr createdPod \<Rightarrow>
          (case pods_watch kclient ns (ObjectMeta.Name (Pod.ObjectMeta createdPod)) of
             Inl err \<Rightarrow>
               ([PodsCreate ns pod,
                 PodsWatch ns (ObjectMeta.Name (Pod.ObjectMeta createdPod))], Some err)
           | Inr w \<Rightarrow>
               ([PodsCreate ns pod,
                 PodsWatch ns (ObjectMeta.Name (Pod.ObjectMeta createdPod)),
                 WatchUntil timeout w], watch_until kclient timeout w)))"

fun is_delete :: "api_call \<Rightarrow> bool" where
  "is_delete (PodsDelete ns name) = True"
| "is_delete call = False"

definition IsKubernetesResourceAlreadyExistError :: "error \<Rightarrow> bool" where
  "IsKubernetesResourceAlreadyExistError err =
     (case err of
        StatusError code reason \<Rightarrow> code = 409 \<and> reason = ''AlreadyExists''
      | _ \<Rightarrow> False)"

section \<open>Package controller\<close>

subsection \<open>Configuration\<close>

record Config =
  Namespace :: string
  MasterHost :: string
  PVProvisioner :: string

definition supportedPVProvisioners :: "string \<rightharpoonup> unit" where
  "supportedPVProvisioners =
     [''kubernetes.io/gce-pd'' \<mapsto> (), ''kubernetes.io/aws-ebs'' \<mapsto> ()]"

definition validate :: "Config \<Rightarrow> error option" where
  "validate c =
     (case supportedPVProvisioners (PVProvisioner c) of
        None \<Rightarrow> Some (ErrNotSupported (PVProvisioner c))
      | Some ok \<Rightarrow> None)"

subsection \<open>The controller's state\<close>

text \<open>
  What the start-up of \<open>Run\<close> and, after it, the switch over the events do to the world
  outside the two maps: the pause between two attempts of the start-up, the list request
  of \<open>findAllClusters\<close>, the calls into package \<open>cluster\<close> (whose code is not at hand:
  its calls are taken to return, \<open>cluster.New\<close> and \<open>cluster.Restore\<close> with a fresh non-nil
  pointer) and the two warnings. Channels and cluster pointers are numbered in the order of their
  allocation. The start-up is over before the switch begins, and the switch handles one
  event at a time, so these effects are in one order. What \<open>createTPR\<close> asks of the server
  is part of its scripted answer and leaves no effect here; the watch requests are the
  monitor goroutine's and are kept in its own trace.
\<close>

datatype effect =
    EffSleep
  | EffListClusters
  | EffClusterNew nat string string ClusterSpec nat
  | EffClusterRestore nat string string nat
  | EffClusterUpdate nat ClusterSpec
  | EffClusterDelete nat
  | EffWarnModification string
  | EffWarnDeletion string

text \<open>
  \<open>clusters\<close> and \<open>stopChMap\<close> are the Go maps. \<open>fresh\<close> (the next unused address) and
  \<open>effects\<close> (the effects so far, oldest first) are the model's bookkeeping.
\<close>

record Controller =
  Config :: Config
  clusters :: "string \<rightharpoonup> nat"
  stopChMap :: "string \<rightharpoonup> nat"
  fresh :: nat
  effects :: "effect list"

text \<open>A panic of \<open>New\<close> is the left injection, with the value it panics with.\<close>

definition New :: "Config \<Rightarrow> error + Controller" where
  "New cfg =
     (case validate cfg of
        Some err \<Rightarrow> Inl err
      | None \<Rightarrow>
          Inr \<lparr>Config = cfg, clusters = Map.empty, stopChMap = Map.empty,
               fresh = 0, effects = []\<rparr>)"

subsection \<open>Watch events\<close>

record rawEvent =
  Type :: string
  Object :: string

record Event =
  Type :: string
  Object :: NatsCluster

record Status =
  Code :: int
  Message :: string

text \<open>
  \<open>json.Unmarshal\<close> into a status and into a cluster object, from the raw bytes of a
  frame's \<open>Object\<close>: library code, a parameter of the model. \<open>Inl\<close> carries the error.
\<close>

record json =
  unmarshalStatus :: "string \<Rightarrow> string + Status"
  unmarshalCluster :: "string \<Rightarrow> string + NatsCluster"

text \<open>What one call \<open>decoder.Decode(re)\<close> gives: \<open>io.EOF\<close>, another error, or a frame.\<close>

datatype decoded = DecodeEOF | DecodeError string | Decoded rawEvent

text \<open>
  \<open>pollEvent\<close>, given the outcome of its call of \<open>decoder.Decode\<close>. The result is the
  triple the Go function returns, \<open>None\<close> for \<open>nil\<close>.
\<close>

definition pollEvent :: "json \<Rightarrow> decoded \<Rightarrow> Event option \<times> Status option \<times> error option" where
  "pollEvent J d =
     (case d of
        DecodeEOF \<Rightarrow> (None, None, Some EOF)
      | DecodeError msg \<Rightarrow> (None, None, Some (ErrDecodeRawEvent msg))
      | Decoded re \<Rightarrow>
          if rawEvent.Type re = ''ERROR'' then
            (case unmarshalStatus J (rawEvent.Object re) of
               Inl msg \<Rightarrow> (None, None, Some (ErrDecodeStatus (rawEvent.Object re) msg))
             | Inr status \<Rightarrow> (None, Some status, None))
          else
            (case unmarshalCluster J (rawEvent.Object re) of
               Inl msg \<Rightarrow> (None, None, Some (ErrUnmarshalCluster (rawEvent.Object re) msg))
             | Inr obj \<Rightarrow> (Some \<lparr>Event.Type = rawEvent.Type re, Object = obj\<rparr>, None, None)))"

subsection \<open>The monitor loop\<close>

text \<open>
  How the monitor goroutine ends: it has put an error on \<open>errCh\<close> and returned;
  \<open>logger.Fatalf\<close> has ended the process; it has dereferenced a nil pointer; or it is
  still waiting for the server (the scripted answers of the server are used up).
\<close>

datatype outcome = ErrSent error | Fatal string | NilPanic | Waiting

text \<open>
  What the body of the inner loop does with one result of \<open>pollEvent\<close>: leave the inner
  loop (\<open>Break\<close>), leave the goroutine (\<open>Return\<close>), or assign the new \<open>watchVersion\<close> and
  then send the event on \<open>eventCh\<close> (\<open>Deliver\<close>, with the cursor as it stands at the send).
\<close>

datatype step = Break | Return outcome | Deliver string Event

definition StatusGone :: int where
  "StatusGone = 410"

definition on_poll :: "Event option \<times> Status option \<times> error option \<Rightarrow> step" where
  "on_poll r =
     (case r of (ev, st, err) \<Rightarrow>
        (case err of
           Some e \<Rightarrow> if e = EOF then Break else Return (ErrSent e)
         | None \<Rightarrow>
             (case st of
                Some s \<Rightarrow>
                  if Code s = StatusGone then Return (ErrSent ErrVersionOutdated)
                  else Return (Fatal (Message s))
              | None \<Rightarrow>
                  (case ev of
                     None \<Rightarrow> Return NilPanic
                   | Some e \<Rightarrow>
                       Deliver (ResourceVersion (NatsCluster.ObjectMeta (Event.Object e))) e))))"

text \<open>
  What the monitor goroutine does that others see: a watch request keyed by a resource
  version, and an event sent on \<open>eventCh\<close> (with the value of \<open>watchVersion\<close> at the send).
\<close>

datatype action = ActWatch string | ActSend string Event

text \<open>
  The inner loop over one response body, given as the successive results of
  \<open>decoder.Decode\<close>. \<open>Inl v\<close>: the loop was left by \<open>break\<close> with \<open>watchVersion = v\<close>.
  \<open>Inr oc\<close>: the goroutine ended.
\<close>

fun monitor_body :: "json \<Rightarrow> string \<Rightarrow> decoded list \<Rightarrow> action list \<times> (string + outcome)" where
  "monitor_body J watchVersion [] = ([], Inr Waiting)"
| "monitor_body J watchVersion (d # ds) =
     (case on_poll (pollEvent J d) of
        Break \<Rightarrow> ([], Inl watchVersion)
      | Return oc \<Rightarrow> ([], Inr oc)
      | Deliver v ev \<Rightarrow>
          (case monitor_body J v ds of (acts, r) \<Rightarrow> (ActSend v ev # acts, r)))"

text \<open>
  What \<open>k8sutil.WatchClusters\<close> answers: an error, or a response with its status code,
  its status line and its body.
\<close>

datatype watch_response = WatchError error | Response int string "decoded list"

fun monitor :: "json \<Rightarrow> string \<Rightarrow> watch_response list \<Rightarrow> action list \<times> outcome" where
  "monitor J watchVersion [] = ([ActWatch watchVersion], Waiting)"
| "monitor J watchVersion (WatchError err # rs) = ([ActWatch watchVersion], ErrSent err)"
| "monitor J watchVersion (Response code status body # rs) =
     (if code \<noteq> 200 then ([ActWatch watchVersion], ErrSent (ErrInvalidStatusCode status))
      else
        (case monitor_body J watchVersion body of
           (acts, Inr oc) \<Rightarrow> (ActWatch watchVersion # acts, oc)
         | (acts, Inl v) \<Rightarrow>
             (case monitor J v rs of (acts', oc) \<Rightarrow> (ActWatch watchVersion # acts @ acts', oc))))"

subsection \<open>The supervisor\<close>

text \<open>The body of the loop over \<open>eventCh\<close> in \<open>Run\<close>.\<close>

definition handle_event :: "Controller \<Rightarrow> Event \<Rightarrow> Controller" where
  "handle_event c event =
     (let clusterName = ObjectMeta.Name (NatsCluster.ObjectMeta (Event.Object event)) in
      if Event.Type event = ''ADDED'' then
        (let clusterSpec = NatsCluster.Spec (Event.Object event);
             stopC = fresh c;
             nc = Suc (fresh c)
         in c\<lparr>stopChMap := (stopChMap c)(clusterName \<mapsto> stopC),
               clusters := (clusters c)(clusterName \<mapsto> nc),
               fresh := Suc (Suc (fresh c)),
               effects := effects c @
                 [EffClusterNew nc clusterName (Namespace (Config c)) clusterSpec stopC]\<rparr>)
      else if Event.Type event = ''MODIFIED'' then
        (case clusters c clusterName of
           None \<Rightarrow> c\<lparr>effects := effects c @ [EffWarnModification clusterName]\<rparr>
         | Some cl \<Rightarrow>
             c\<lparr>effects := effects c @
                 [EffClusterUpdate cl (NatsCluster.Spec (Event.Object event))]\<rparr>)
      else if Event.Type event = ''DELETED'' then
        (case clusters c clusterName of
           None \<Rightarrow> c\<lparr>effects := effects c @ [EffWarnDeletion clusterName]\<rparr>
         | Some cl \<Rightarrow>
             c\<lparr>clusters := (clusters c)(clusterName := None),
               effects := effects c @ [EffClusterDelete cl]\<rparr>)
      else c)"

text \<open>
  The list endpoint's answer to \<open>findAllClusters\<close>: a transport error, or a body that
  the decoder rejects (\<open>Inl\<close>) or reads as a list of clusters.
\<close>

record NATSClusterList =
  Items :: "NatsCluster list"
  ResourceVersion :: string

datatype list_response = ListError error | ListBody "string + NATSClusterList"

text \<open>
  One round of the loop over the listed items. (The Go code hands \<open>cluster.Restore\<close> a
  pointer to the loop variable's \<open>Spec\<close>; the model does not record that argument.)
\<close>

definition restore :: "NatsCluster \<Rightarrow> Controller \<Rightarrow> Controller" where
  "restore item c =
     (let stopC = fresh c;
          nc = Suc (fresh c);
          name = ObjectMeta.Name (NatsCluster.ObjectMeta item)
      in c\<lparr>stopChMap := (stopChMap c)(name \<mapsto> stopC),
            clusters := (clusters c)(name \<mapsto> nc),
            fresh := Suc (Suc (fresh c)),
            effects := effects c @ [EffClusterRestore nc name (Namespace (Config c)) stopC]\<rparr>)"

definition findAllClusters :: "Controller \<Rightarrow> list_response \<Rightarrow> (error + string) \<times> Controller" where
  "findAllClusters c resp =
     (let c = c\<lparr>effects := effects c @ [EffListClusters]\<rparr> in
      case resp of
        ListError err \<Rightarrow> (Inl err, c)
      | ListBody (Inl msg) \<Rightarrow> (Inl (External msg), c)
      | ListBody (Inr list) \<Rightarrow>
          (Inr (NATSClusterList.ResourceVersion list), fold restore (Items list) c))"

text \<open>
  One attempt of \<open>initResource\<close>: what \<open>createTPR\<close> returns there, and what the list
  endpoint answers if it is asked.
\<close>

record init_attempt =
  createTPR :: "error option"
  listed :: list_response

definition initResource :: "Controller \<Rightarrow> init_attempt \<Rightarrow> (error + string) \<times> Controller" where
  "initResource c a =
     (case createTPR a of
        None \<Rightarrow> (Inr ''0'', c)
      | Some err \<Rightarrow>
          if IsKubernetesResourceAlreadyExistError err then findAllClusters c (listed a)
          else (Inl (ErrCreateTPR err), c))"

text \<open>
  The retry loop at the head of \<open>Run\<close>. \<open>None\<close>: every scripted attempt has failed and
  the loop is still retrying.
\<close>

fun init_loop :: "Controller \<Rightarrow> init_attempt list \<Rightarrow> string option \<times> Controller" where
  "init_loop c [] = (None, c)"
| "init_loop c (a # as) =
     (case initResource c a of
        (Inr watchVersion, c') \<Rightarrow> (Some watchVersion, c')
      | (Inl err, c') \<Rightarrow> init_loop (c'\<lparr>effects := effects c' @ [EffSleep]\<rparr>) as)"

text \<open>
  The consumer's side of one action of the monitor: a watch request does not reach it, a
  sent event is received and handled by the switch.
\<close>

fun deliver :: "Controller \<Rightarrow> action \<Rightarrow> Controller" where
  "deliver c (ActWatch v) = c"
| "deliver c (ActSend v ev) = handle_event c ev"

fun is_send :: "action \<Rightarrow> bool" where
  "is_send (ActSend v ev) = True"
| "is_send (ActWatch v) = False"

text \<open>
  How \<open>Run\<close> ends: it has received an error on \<open>errCh\<close> and returns it (once its deferred
  function is through); the process has been ended by \<open>logger.Fatalf\<close>; a goroutine has
  panicked; or \<open>Run\<close> has not returned while the script lasted.
\<close>

datatype run_result = Returned error | Exited string | Panicked | Running

text \<open>
  \<open>Run\<close>. The monitor and the switch over the events are two goroutines, and \<open>eventCh\<close>
  is unbuffered: a send ends when the switch takes the event, which it does once it has
  handled the one before. So when the monitor ends, every event it has sent but the last
  has been handled, and the last one has been taken; how far the switch has come with
  it when \<open>Run\<close> receives from \<open>errCh\<close>, runs its deferred function and returns is not
  determined. The model gives what is determined: how \<open>Run\<close> ends (\<open>ended\<close>), what the
  monitor has done (\<open>monitored\<close>), the controller after the start-up and the handling
  of every sent event but the last (\<open>settled\<close>), and the send whose event is being
  handled meanwhile (\<open>inflight\<close>). The deferred function (closing the channels found in
  \<open>stopChMap\<close>, waiting for the clusters) runs beside the handling of that event and is
  not part of the model.
\<close>

record run =
  ended :: run_result
  monitored :: "action list"
  settled :: Controller
  inflight :: "action option"

definition Run ::
  "json \<Rightarrow> Controller \<Rightarrow> init_attempt list \<Rightarrow> watch_response list \<Rightarrow> run" where
  "Run J c inits watches =
     (case init_loop c inits of
        (None, c1) \<Rightarrow> \<lparr>ended = Running, monitored = [], settled = c1, inflight = None\<rparr>
      | (Some watchVersion, c1) \<Rightarrow>
          (case monitor J watchVersion watches of
             (acts, oc) \<Rightarrow>
               \<lparr>ended =
                  (case oc of
                     ErrSent err \<Rightarrow> Returned err
                   | Fatal msg \<Rightarrow> Exited msg
                   | NilPanic \<Rightarrow> Panicked
                   | Waiting \<Rightarrow> Running),
                monitored = acts,
                settled = foldl deliver c1 (butlast (filter is_send acts)),
                inflight =
                  (if filter is_send acts = [] then None
                   else Some (last (filter is_send acts)))\<rparr>))"

section \<open>Notions used in the statements\<close>

text \<open>
  A run of data frames: each frame with the cluster object that its \<open>Object\<close> decodes
  to. The code takes every frame whose \<open>Type\<close> is not \<open>ERROR\<close> for a data frame.
\<close>

definition data_frames :: "json \<Rightarrow> (rawEvent \<times> NatsCluster) list \<Rightarrow> bool" where
  "data_frames J ps =
     list_all (\<lambda>p. rawEvent.Type (fst p) \<noteq> ''ERROR'' \<and>
                    unmarshalCluster J (rawEvent.Object (fst p)) = Inr (snd p)) ps"

definition event_of :: "rawEvent \<times> NatsCluster \<Rightarrow> Event" where
  "event_of p = \<lparr>Event.Type = rawEvent.Type (fst p), Object = snd p\<rparr>"

definition send_of :: "rawEvent \<times> NatsCluster \<Rightarrow> action" where
  "send_of p = ActSend (ObjectMeta.ResourceVersion (NatsCluster.ObjectMeta (snd p))) (event_of p)"

text \<open>The resource version of the last frame of a run, or the cursor before the run.\<close>

definition cursor_after :: "string \<Rightarrow> (rawEvent \<times> NatsCluster) list \<Rightarrow> string" where
  "cursor_after v ps =
     foldl (\<lambda>w p. ObjectMeta.ResourceVersion (NatsCluster.ObjectMeta (snd p))) v ps"

text \<open>
  A stream that the server closes cleanly: status 200 with some status line, a run of
  data frames, the end of the stream (and whatever the script holds after it, which is
  never read).
\<close>

type_synonym closed_stream = "string \<times> (rawEvent \<times> NatsCluster) list \<times> decoded list"

definition response_of :: "closed_stream \<Rightarrow> watch_response" where
  "response_of cs =
     (case cs of (status, ps, junk) \<Rightarrow>
        Response 200 status (map (\<lambda>p. Decoded (fst p)) ps @ DecodeEOF # junk))"

definition closed_streams :: "json \<Rightarrow> closed_stream list \<Rightarrow> bool" where
  "closed_streams J css = list_all (\<lambda>cs. data_frames J (fst (snd cs))) css"

fun cursor_of :: "string \<Rightarrow> closed_stream list \<Rightarrow> string" where
  "cursor_of v [] = v"
| "cursor_of v (cs # css) = cursor_of (cursor_after v (fst (snd cs))) css"

fun trace_of :: "string \<Rightarrow> closed_stream list \<Rightarrow> action list" where
  "trace_of v [] = []"
| "trace_of v (cs # css) =
     ActWatch v # map send_of (fst (snd cs)) @ trace_of (cursor_after v (fst (snd cs))) css"

text \<open>
  A trace keeps the cursor when, read from a cursor \<open>v\<close>, every send carries the resource
  version of the event it sends, and every watch request is keyed by the resource
  version of the last event sent before it (by \<open>v\<close> when there is none).
\<close>

fun keeps_cursor :: "string \<Rightarrow> action list \<Rightarrow> bool" where
  "keeps_cursor v [] = True"
| "keeps_cursor v (ActWatch w # acts) = (w = v \<and> keeps_cursor v acts)"
| "keeps_cursor v (ActSend w ev # acts) =
     (w = ObjectMeta.ResourceVersion (NatsCluster.ObjectMeta (Event.Object ev)) \<and>
      keeps_cursor w acts)"

text \<open>
  A frame that fails to decode: the stream's decoder rejects it, or it is an \<open>ERROR\<close>
  frame whose \<open>Object\<close> is no status, or another frame whose \<open>Object\<close> is no cluster.
\<close>

definition undecodable :: "json \<Rightarrow> decoded \<Rightarrow> bool" where
  "undecodable J d =
     (case d of
        DecodeEOF \<Rightarrow> False
      | DecodeError msg \<Rightarrow> True
      | Decoded re \<Rightarrow>
          if rawEvent.Type re = ''ERROR'' then isl (unmarshalStatus J (rawEvent.Object re))
          else isl (unmarshalCluster J (rawEvent.Object re)))"

section \<open>Sample values\<close>

text \<open>
  A cluster declaration, a JSON library that knows three objects (a status \<open>410\<close> and
  two versions of the cluster \<open>a\<close>), a controller as \<open>New\<close> returns it, and a frame.
\<close>

definition demo_cluster :: "string \<Rightarrow> string \<Rightarrow> string \<Rightarrow> NatsCluster" where
  "demo_cluster name rv version =
     \<lparr>NatsCluster.ObjectMeta =
        \<lparr>ObjectMeta.Name = name, GenerateName = '''', ResourceVersion = rv,
         Labels = Map.empty, Annotations = Map.empty\<rparr>,
      NatsCluster.Spec =
        \<lparr>Size = 3, Version = version, Paused = False, AntiAffinity = False,
         NodeSelector = []\<rparr>\<rparr>"

definition demo_json :: json where
  "demo_json =
     \<lparr>unmarshalStatus =
        (\<lambda>raw. if raw = ''gone'' then Inr \<lparr>Code = 410, Message = ''too old resource version''\<rparr>
               else Inl ''cannot unmarshal''),
      unmarshalCluster =
        (\<lambda>raw. if raw = ''a1'' then Inr (demo_cluster ''a'' ''1'' ''0.9.2'')
               else if raw = ''a2'' then Inr (demo_cluster ''a'' ''2'' ''0.9.4'')
               else Inl ''cannot unmarshal'')\<rparr>"

definition demo_controller :: Controller where
  "demo_controller =
     \<lparr>Config = \<lparr>Namespace = ''default'', MasterHost = '''', PVProvisioner = ''kubernetes.io/gce-pd''\<rparr>,
      clusters = Map.empty, stopChMap = Map.empty, fresh = 0, effects = []\<rparr>"

definition demo_frame :: "string \<Rightarrow> string \<Rightarrow> rawEvent" where
  "demo_frame ty raw = \<lparr>rawEvent.Type = ty, Object = raw\<rparr>"

text \<open>
  A client whose server names the created pod and never reports it running, and the
  customary port numbers.
\<close>

definition demo_client :: kube_client where
  "demo_client =
     \<lparr>pods_create =
        (\<lambda>ns pod. Inr (pod\<lparr>Pod.ObjectMeta := (Pod.ObjectMeta pod)
           \<lparr>ObjectMeta.Name := GenerateName (Pod.ObjectMeta pod) @ ''x7k2q''\<rparr>\<rparr>)),
      pods_watch = (\<lambda>ns name. Inr 0),
      watch_until = (\<lambda>timeout w. Some ErrWaitTimeout)\<rparr>"

definition demo_constants :: constants where
  "demo_constants = \<lparr>ClientPort = 4222, ClusterPort = 6222, MonitoringPort = 8222\<rparr>"

section \<open>Templating\<close>

text \<open>
  C6. For every cluster name and every cluster specification, the version annotation
  read back from the pod that \<open>MakePodSpec\<close> builds is the specification's \<open>Version\<close>.
\<close>

theorem MakePodSpec_version_annotation:
  "GetNATSVersion (MakePodSpec K clusterName cs) = Version cs"
  by (simp add: MakePodSpec_def GetNATSVersion_def SetNATSVersion_def
      podWithAntiAffinity_def PodWithNodeSelector_def Let_def)

text \<open>
  C7. The pod that \<open>MakePodSpec\<close> builds has the generate-name prefix \<open><clusterName>-\<close>,
  the labels \<open>app=nats\<close> and \<open>nats_cluster=<name>\<close>, exactly one container, of image
  \<open>nats:<version>\<close> and with the three arguments in their order, the restart policy
  \<open>Never\<close>, and the specification's node selector exactly when that one is not empty.
\<close>

theorem MakePodSpec_shape:
  "GenerateName (Pod.ObjectMeta (MakePodSpec K clusterName cs)) = clusterName @ ''-'' \<and>
   Labels (Pod.ObjectMeta (MakePodSpec K clusterName cs)) =
     [''app'' \<mapsto> ''nats'', ''nats_cluster'' \<mapsto> clusterName] \<and>
   Containers (Pod.Spec (MakePodSpec K clusterName cs)) =
     [\<lparr>Image = ''nats:'' @ Version cs,
       Args = [''--cluster=nats://0.0.0.0:'' @ int_dec (ClusterPort K),
               ''--http_port='' @ int_dec (MonitoringPort K),
               ''--routes=nats://'' @ clusterName @ ''-mgmt:'' @ int_dec (ClusterPort K)]\<rparr>] \<and>
   RestartPolicy (Pod.Spec (MakePodSpec K clusterName cs)) = RestartPolicyNever \<and>
   PodSpec.NodeSelector (Pod.Spec (MakePodSpec K clusterName cs)) =
     (if ClusterSpec.NodeSelector cs = [] then None
      else Some (ClusterSpec.NodeSelector cs))"
  by (simp add: MakePodSpec_def SetNATSVersion_def natsPodContainer_def MakeNATSImage_def
      podWithAntiAffinity_def PodWithNodeSelector_def Let_def)

text \<open>
  C8. The client service is headless, is named after the cluster, exposes one TCP port,
  the client port, and selects \<open>app=nats\<close>, \<open>nats_cluster=<name>\<close>; the management service
  is headless, is named \<open><name>-mgmt\<close>, exposes two TCP ports, the cluster port and the
  monitoring port, and selects \<open>app=nats-mgmt\<close>, \<open>nats_cluster=<name>\<close>.
\<close>

theorem service_templates:
  "ObjectMeta.Name (Service.ObjectMeta (makeServiceSpec K clusterName)) = clusterName \<and>
   ClusterIP (Service.Spec (makeServiceSpec K clusterName)) = ''None'' \<and>
   map Port (Ports (Service.Spec (makeServiceSpec K clusterName))) = [ClientPort K] \<and>
   map Protocol (Ports (Service.Spec (makeServiceSpec K clusterName))) = [ProtocolTCP] \<and>
   Selector (Service.Spec (makeServiceSpec K clusterName)) =
     [''app'' \<mapsto> ''nats'', ''nats_cluster'' \<mapsto> clusterName] \<and>
   ObjectMeta.Name (Service.ObjectMeta (makeMgmtServiceSpec K clusterName)) = clusterName @ ''-mgmt'' \<and>
   ClusterIP (Service.Spec (makeMgmtServiceSpec K clusterName)) = ''None'' \<and>
   map Port (Ports (Service.Spec (makeMgmtServiceSpec K clusterName))) =
     [ClusterPort K, MonitoringPort K] \<and>
   map Protocol (Ports (Service.Spec (makeMgmtServiceSpec K clusterName))) =
     [ProtocolTCP, ProtocolTCP] \<and>
   Selector (Service.Spec (makeMgmtServiceSpec K clusterName)) =
     [''app'' \<mapsto> ''nats-mgmt'', ''nats_cluster'' \<mapsto> clusterName]"
  by (simp add: makeServiceSpec_def makeMgmtServiceSpec_def ClusterIPNone_def Let_def)

section \<open>Configuration\<close>

text \<open>
  C9. \<open>New\<close> returns a controller exactly when the provisioner of the configuration is
  \<open>kubernetes.io/gce-pd\<close> or \<open>kubernetes.io/aws-ebs\<close>; for every other value it panics
  with the validation error.
\<close>

theorem New_accepts_supported_provisioners:
  "New cfg =
     (if PVProvisioner cfg = ''kubernetes.io/gce-pd'' \<or> PVProvisioner cfg = ''kubernetes.io/aws-ebs''
      then Inr \<lparr>Config = cfg, clusters = Map.empty, stopChMap = Map.empty, fresh = 0, effects = []\<rparr>
      else Inl (ErrNotSupported (PVProvisioner cfg)))"
  by (simp add: New_def validate_def supportedPVProvisioners_def)

section \<open>The watch stream\<close>

lemma pollEvent_data:
  "rawEvent.Type re \<noteq> ''ERROR'' \<Longrightarrow> unmarshalCluster J (rawEvent.Object re) = Inr obj \<Longrightarrow>
   pollEvent J (Decoded re) = (Some \<lparr>Event.Type = rawEvent.Type re, Object = obj\<rparr>, None, None)"
  by (simp add: pollEvent_def)

lemma on_poll_data:
  "on_poll (Some ev, None, None) =
     Deliver (ObjectMeta.ResourceVersion (NatsCluster.ObjectMeta (Event.Object ev))) ev"
  by (simp add: on_poll_def)

lemma on_poll_Deliver:
  "on_poll r = Deliver w ev \<Longrightarrow>
   w = ObjectMeta.ResourceVersion (NatsCluster.ObjectMeta (Event.Object ev))"
  by (auto simp: on_poll_def split: prod.splits option.splits if_splits)

lemma monitor_body_data:
  "data_frames J ps \<Longrightarrow>
   monitor_body J v (map (\<lambda>p. Decoded (fst p)) ps @ ds) =
     (map send_of ps @ fst (monitor_body J (cursor_after v ps) ds),
      snd (monitor_body J (cursor_after v ps) ds))"
proof (induction ps arbitrary: v)
  case Nil
  then show ?case by (simp add: cursor_after_def)
next
  case (Cons p ps)
  from Cons.prems have p: "rawEvent.Type (fst p) \<noteq> ''ERROR''"
    "unmarshalCluster J (rawEvent.Object (fst p)) = Inr (snd p)"
    and ps: "data_frames J ps"
    by (simp_all add: data_frames_def)
  have step: "on_poll (pollEvent J (Decoded (fst p))) =
      Deliver (ObjectMeta.ResourceVersion (NatsCluster.ObjectMeta (snd p))) (event_of p)"
    using p by (simp add: pollEvent_data on_poll_data event_of_def)
  have cur: "cursor_after v (p # ps) =
      cursor_after (ObjectMeta.ResourceVersion (NatsCluster.ObjectMeta (snd p))) ps"
    by (simp add: cursor_after_def)
  show ?case
    using Cons.IH [OF ps, of "ObjectMeta.ResourceVersion (NatsCluster.ObjectMeta (snd p))"]
    by (simp add: step cur send_of_def)
qed

lemma monitor_body_closed:
  "data_frames J ps \<Longrightarrow>
   monitor_body J v (map (\<lambda>p. Decoded (fst p)) ps @ DecodeEOF # junk) =
     (map send_of ps, Inl (cursor_after v ps))"
  by (simp add: monitor_body_data pollEvent_def on_poll_def)

lemma monitor_closed:
  "closed_streams J css \<Longrightarrow>
   monitor J v (map response_of css @ rs) =
     (trace_of v css @ fst (monitor J (cursor_of v css) rs),
      snd (monitor J (cursor_of v css) rs))"
proof (induction css arbitrary: v)
  case Nil
  then show ?case by simp
next
  case (Cons cs css)
  obtain status ps junk where cs: "cs = (status, ps, junk)"
    by (cases cs) auto
  from Cons.prems cs have ps: "data_frames J ps" and css: "closed_streams J css"
    by (simp_all add: closed_streams_def)
  show ?case
    using Cons.IH [OF css, of "cursor_after v ps"]
    by (simp add: cs response_of_def monitor_body_closed [OF ps])
qed

lemma monitor_body_keeps_Inl:
  "monitor_body J v ds = (acts, Inl v') \<Longrightarrow> keeps_cursor v (acts @ rest) = keeps_cursor v' rest"
proof (induction ds arbitrary: v acts)
  case Nil
  then show ?case by simp
next
  case (Cons d ds)
  show ?case
  proof (cases "on_poll (pollEvent J d)")
    case Break
    with Cons.prems show ?thesis by simp
  next
    case (Return oc)
    with Cons.prems show ?thesis by simp
  next
    case (Deliver w ev)
    obtain acts1 r1 where b: "monitor_body J w ds = (acts1, r1)"
      by (cases "monitor_body J w ds") auto
    from Cons.prems Deliver b have a: "acts = ActSend w ev # acts1" and r: "r1 = Inl v'"
      by simp_all
    from Cons.IH [of w acts1] b r have "keeps_cursor w (acts1 @ rest) = keeps_cursor v' rest"
      by simp
    then show ?thesis
      using on_poll_Deliver [OF Deliver] by (simp add: a)
  qed
qed

lemma monitor_body_keeps_Inr:
  "monitor_body J v ds = (acts, Inr oc) \<Longrightarrow> keeps_cursor v acts"
proof (induction ds arbitrary: v acts)
  case Nil
  then show ?case by simp
next
  case (Cons d ds)
  show ?case
  proof (cases "on_poll (pollEvent J d)")
    case Break
    with Cons.prems show ?thesis by simp
  next
    case (Return oc')
    with Cons.prems show ?thesis by simp
  next
    case (Deliver w ev)
    obtain acts1 r1 where b: "monitor_body J w ds = (acts1, r1)"
      by (cases "monitor_body J w ds") auto
    from Cons.prems Deliver b have a: "acts = ActSend w ev # acts1" and r: "r1 = Inr oc"
      by simp_all
    from Cons.IH [of w acts1] b r have "keeps_cursor w acts1"
      by simp
    then show ?thesis
      using on_poll_Deliver [OF Deliver] by (simp add: a)
  qed
qed

lemma monitor_keeps_cursor: "keeps_cursor v (fst (monitor J v rs))"
proof (induction J v rs rule: monitor.induct)
  case (1 J v)
  show ?case by simp
next
  case (2 J v err rs)
  show ?case by simp
next
  case (3 J v code status body rs)
  show ?case
  proof (cases "code = 200")
    case False
    then show ?thesis by simp
  next
    case True
    obtain acts r where b: "monitor_body J v body = (acts, r)"
      by (cases "monitor_body J v body") auto
    show ?thesis
    proof (cases r)
      case (Inr oc)
      with b True monitor_body_keeps_Inr [of J v body acts oc] show ?thesis by simp
    next
      case (Inl v')
      obtain acts' oc where m: "monitor J v' rs = (acts', oc)"
        by (cases "monitor J v' rs") auto
      have "keeps_cursor v' acts'"
        using "3.IH" [OF _ b [symmetric] Inl] True m by simp
      then have "keeps_cursor v (acts @ acts')"
        using monitor_body_keeps_Inl [of J v body acts v' acts'] b Inl by simp
      with b True Inl m show ?thesis by simp
    qed
  qed
qed

lemma monitor_starts_with_watch: "fst (monitor J v rs) = ActWatch v # tl (fst (monitor J v rs))"
  by (cases "(J, v, rs)" rule: monitor.cases) (auto split: prod.splits sum.splits)

lemma monitor_ends:
  assumes "closed_streams J css" and "data_frames J ps"
    and "on_poll (pollEvent J d) = Return oc"
  shows "monitor J v (map response_of css @
           Response 200 status (map (\<lambda>p. Decoded (fst p)) ps @ d # ds) # rs) =
         (trace_of v css @ ActWatch (cursor_of v css) # map send_of ps, oc)"
proof -
  have "monitor_body J (cursor_of v css) (map (\<lambda>p. Decoded (fst p)) ps @ d # ds) =
      (map send_of ps, Inr oc)"
    using assms(2,3) by (simp add: monitor_body_data)
  then have "monitor J (cursor_of v css)
      (Response 200 status (map (\<lambda>p. Decoded (fst p)) ps @ d # ds) # rs) =
      (ActWatch (cursor_of v css) # map send_of ps, oc)"
    by simp
  then show ?thesis
    using assms(1) by (simp add: monitor_closed)
qed

lemma Run_returns:
  "init_loop c inits = (Some v, c1) \<Longrightarrow> monitor J v ws = (acts, ErrSent e) \<Longrightarrow>
   ended (Run J c inits ws) = Returned e \<and> monitored (Run J c inits ws) = acts"
  by (simp add: Run_def)

lemma undecodable_pollEvent:
  "undecodable J d \<Longrightarrow> \<exists>e. e \<noteq> EOF \<and> pollEvent J d = (None, None, Some e)"
  by (cases d) (auto simp: undecodable_def pollEvent_def isl_def split: if_splits)

text \<open>
  C3. Every data event is sent with the cursor already advanced to its resource version,
  and after a clean end of the stream the watch is opened again with the cursor as it
  stands: in every run of the monitor, each send carries the resource version of its
  event and each watch request is keyed by the resource version of the last event sent
  before it; a frame of type \<open>ADDED\<close>, \<open>MODIFIED\<close> or \<open>DELETED\<close> that decodes is delivered
  under its own resource version; and after any number of cleanly closed streams the
  next request is keyed by the resource version of the last event of those streams.
\<close>

theorem monitor_tracks_cursor:
  "keeps_cursor v (fst (monitor J v rs)) \<and>
   (rawEvent.Type re \<in> {''ADDED'', ''MODIFIED'', ''DELETED''} \<and>
    unmarshalCluster J (rawEvent.Object re) = Inr obj \<longrightarrow>
      on_poll (pollEvent J (Decoded re)) =
        Deliver (ObjectMeta.ResourceVersion (NatsCluster.ObjectMeta obj))
          \<lparr>Event.Type = rawEvent.Type re, Object = obj\<rparr>) \<and>
   (closed_streams J css \<longrightarrow>
      (\<exists>rest. fst (monitor J v (map response_of css @ rs)) =
         trace_of v css @ ActWatch (cursor_of v css) # rest))"
proof (intro conjI impI)
  show "keeps_cursor v (fst (monitor J v rs))"
    by (rule monitor_keeps_cursor)
next
  assume a: "rawEvent.Type re \<in> {''ADDED'', ''MODIFIED'', ''DELETED''} \<and>
    unmarshalCluster J (rawEvent.Object re) = Inr obj"
  then have "rawEvent.Type re \<noteq> ''ERROR''" by auto
  with a show "on_poll (pollEvent J (Decoded re)) =
        Deliver (ObjectMeta.ResourceVersion (NatsCluster.ObjectMeta obj))
          \<lparr>Event.Type = rawEvent.Type re, Object = obj\<rparr>"
    by (simp add: pollEvent_data on_poll_data)
next
  assume "closed_streams J css"
  then have "fst (monitor J v (map response_of css @ rs)) =
      trace_of v css @ fst (monitor J (cursor_of v css) rs)"
    by (simp add: monitor_closed)
  also have "\<dots> = trace_of v css @ ActWatch (cursor_of v css) # tl (fst (monitor J (cursor_of v css) rs))"
    using monitor_starts_with_watch [of J "cursor_of v css" rs] by simp
  finally show "\<exists>rest. fst (monitor J v (map response_of css @ rs)) =
         trace_of v css @ ActWatch (cursor_of v css) # rest"
    by blast
qed

theorem monitor_tracks_cursor_witness:
  "keeps_cursor ''0''
     (fst (monitor demo_json ''0''
        [Response 200 ''200 OK'' [Decoded (demo_frame ''ADDED'' ''a1''), DecodeEOF],
         Response 200 ''200 OK'' [Decoded (demo_frame ''MODIFIED'' ''a2''), DecodeEOF]])) \<and>
   on_poll (pollEvent demo_json (Decoded (demo_frame ''ADDED'' ''a1''))) =
     Deliver ''1'' \<lparr>Event.Type = ''ADDED'', Object = demo_cluster ''a'' ''1'' ''0.9.2''\<rparr> \<and>
   (\<exists>rest. fst (monitor demo_json ''0''
        [Response 200 ''200 OK'' [Decoded (demo_frame ''ADDED'' ''a1''), DecodeEOF],
         Response 200 ''200 OK'' [Decoded (demo_frame ''MODIFIED'' ''a2''), DecodeEOF]]) =
      [ActWatch ''0'',
       ActSend ''1'' \<lparr>Event.Type = ''ADDED'', Object = demo_cluster ''a'' ''1'' ''0.9.2''\<rparr>,
       ActWatch ''1''] @ rest)"
  using monitor_tracks_cursor [of "''0''" demo_json
      "[Response 200 ''200 OK'' [Decoded (demo_frame ''MODIFIED'' ''a2''), DecodeEOF]]"
      "demo_frame ''ADDED'' ''a1''" "demo_cluster ''a'' ''1'' ''0.9.2''"
      "[(''200 OK'', [(demo_frame ''ADDED'' ''a1'', demo_cluster ''a'' ''1'' ''0.9.2'')], [])]"]
  by (simp add: closed_streams_def data_frames_def response_of_def demo_json_def demo_frame_def
      demo_cluster_def send_of_def event_of_def cursor_after_def pollEvent_def on_poll_def)

text \<open>
  C4. A frame that fails to decode (the decoder rejects it, or it is an \<open>ERROR\<close> frame
  whose object is no status, or a data frame whose object is no cluster) makes
  \<open>pollEvent\<close> return an error other than \<open>EOF\<close>; the monitor, when it reaches the frame,
  puts that error on the error channel and sends nothing more, so that only the data
  frames before it have been sent as events; and \<open>Run\<close> returns that error.
\<close>

theorem undecodable_frame_ends_Run:
  assumes "undecodable J d"
    and "closed_streams J css" and "data_frames J ps"
    and "init_loop c inits = (Some v, c1)"
  shows "\<exists>e. e \<noteq> EOF \<and> pollEvent J d = (None, None, Some e) \<and>
     monitor J v (map response_of css @
         Response 200 status (map (\<lambda>p. Decoded (fst p)) ps @ d # ds) # rs) =
       (trace_of v css @ ActWatch (cursor_of v css) # map send_of ps, ErrSent e) \<and>
     ended (Run J c inits (map response_of css @
         Response 200 status (map (\<lambda>p. Decoded (fst p)) ps @ d # ds) # rs)) = Returned e \<and>
     monitored (Run J c inits (map response_of css @
         Response 200 status (map (\<lambda>p. Decoded (fst p)) ps @ d # ds) # rs)) =
       trace_of v css @ ActWatch (cursor_of v css) # map send_of ps"
proof -
  from undecodable_pollEvent [OF assms(1)] obtain e
    where e: "e \<noteq> EOF" and p: "pollEvent J d = (None, None, Some e)"
    by blast
  from e p have "on_poll (pollEvent J d) = Return (ErrSent e)"
    by (simp add: on_poll_def)
  from monitor_ends [OF assms(2,3) this]
  have m: "monitor J v (map response_of css @
         Response 200 status (map (\<lambda>p. Decoded (fst p)) ps @ d # ds) # rs) =
       (trace_of v css @ ActWatch (cursor_of v css) # map send_of ps, ErrSent e)" .
  from Run_returns [OF assms(4) m] e p m show ?thesis
    by blast
qed

theorem undecodable_frame_ends_Run_witness:
  "pollEvent demo_json (Decoded (demo_frame ''MODIFIED'' ''{'')) =
     (None, None, Some (ErrUnmarshalCluster ''{'' ''cannot unmarshal'')) \<and>
   monitor demo_json ''0''
     [Response 200 ''200 OK'' [DecodeEOF],
      Response 200 ''200 OK''
        [Decoded (demo_frame ''ADDED'' ''a1''), Decoded (demo_frame ''MODIFIED'' ''{''),
         Decoded (demo_frame ''MODIFIED'' ''a2'')]] =
     ([ActWatch ''0'', ActWatch ''0'',
       ActSend ''1'' \<lparr>Event.Type = ''ADDED'', Object = demo_cluster ''a'' ''1'' ''0.9.2''\<rparr>],
      ErrSent (ErrUnmarshalCluster ''{'' ''cannot unmarshal'')) \<and>
   ended (Run demo_json demo_controller [\<lparr>createTPR = None, listed = ListError EOF\<rparr>]
     [Response 200 ''200 OK'' [DecodeEOF],
      Response 200 ''200 OK''
        [Decoded (demo_frame ''ADDED'' ''a1''), Decoded (demo_frame ''MODIFIED'' ''{''),
         Decoded (demo_frame ''MODIFIED'' ''a2'')]]) =
     Returned (ErrUnmarshalCluster ''{'' ''cannot unmarshal'') \<and>
   monitored (Run demo_json demo_controller [\<lparr>createTPR = None, listed = ListError EOF\<rparr>]
     [Response 200 ''200 OK'' [DecodeEOF],
      Response 200 ''200 OK''
        [Decoded (demo_frame ''ADDED'' ''a1''), Decoded (demo_frame ''MODIFIED'' ''{''),
         Decoded (demo_frame ''MODIFIED'' ''a2'')]]) =
     [ActWatch ''0'', ActWatch ''0'',
      ActSend ''1'' \<lparr>Event.Type = ''ADDED'', Object = demo_cluster ''a'' ''1'' ''0.9.2''\<rparr>]"
proof -
  have u: "undecodable demo_json (Decoded (demo_frame ''MODIFIED'' ''{''))"
    by (simp add: undecodable_def demo_json_def demo_frame_def)
  have cs: "closed_streams demo_json [(''200 OK'', [], [])]"
    by (simp add: closed_streams_def data_frames_def)
  have ps: "data_frames demo_json [(demo_frame ''ADDED'' ''a1'', demo_cluster ''a'' ''1'' ''0.9.2'')]"
    by (simp add: data_frames_def demo_json_def demo_frame_def)
  have i: "init_loop demo_controller [\<lparr>createTPR = None, listed = ListError EOF\<rparr>] =
      (Some ''0'', demo_controller)"
    by (simp add: initResource_def)
  have p: "pollEvent demo_json (Decoded (demo_frame ''MODIFIED'' ''{'')) =
     (None, None, Some (ErrUnmarshalCluster ''{'' ''cannot unmarshal''))"
    by (simp add: pollEvent_def demo_json_def demo_frame_def)
  have args: "map response_of [(''200 OK'', [], [])] @
      Response 200 ''200 OK''
        (map (\<lambda>p. Decoded (fst p))
           [(demo_frame ''ADDED'' ''a1'', demo_cluster ''a'' ''1'' ''0.9.2'')] @
         Decoded (demo_frame ''MODIFIED'' ''{'') # [Decoded (demo_frame ''MODIFIED'' ''a2'')]) # [] =
      [Response 200 ''200 OK'' [DecodeEOF],
       Response 200 ''200 OK''
         [Decoded (demo_frame ''ADDED'' ''a1''), Decoded (demo_frame ''MODIFIED'' ''{''),
          Decoded (demo_frame ''MODIFIED'' ''a2'')]]"
    by (simp add: response_of_def)
  have tr: "trace_of ''0'' [(''200 OK'', [], [])] @
      ActWatch (cursor_of ''0'' [(''200 OK'', [], [])]) #
      map send_of [(demo_frame ''ADDED'' ''a1'', demo_cluster ''a'' ''1'' ''0.9.2'')] =
      [ActWatch ''0'', ActWatch ''0'',
       ActSend ''1'' \<lparr>Event.Type = ''ADDED'', Object = demo_cluster ''a'' ''1'' ''0.9.2''\<rparr>]"
    by (simp add: send_of_def event_of_def cursor_after_def demo_cluster_def demo_frame_def)
  from undecodable_frame_ends_Run [OF u cs ps i,
      of "''200 OK''" "[Decoded (demo_frame ''MODIFIED'' ''a2'')]" "[]"]
  show ?thesis
    unfolding args tr p by simp
qed

text \<open>
  C10. A decoded frame of any type other than \<open>ERROR\<close>, whatever the type, is returned by
  \<open>pollEvent\<close> as a data event with its object decoded as a cluster; the monitor sends
  it with the cursor advanced to its resource version and goes on from that cursor; and
  when the type is none of \<open>ADDED\<close>, \<open>MODIFIED\<close>, \<open>DELETED\<close> the supervisor's switch leaves
  the controller as it was, with no call, no warning and no change of the maps.
\<close>

theorem unknown_type_moves_cursor_only:
  assumes "rawEvent.Type re \<noteq> ''ERROR''"
    and "unmarshalCluster J (rawEvent.Object re) = Inr obj"
  shows "pollEvent J (Decoded re) =
      (Some \<lparr>Event.Type = rawEvent.Type re, Object = obj\<rparr>, None, None) \<and>
    monitor_body J v (Decoded re # ds) =
      (ActSend (ObjectMeta.ResourceVersion (NatsCluster.ObjectMeta obj))
           \<lparr>Event.Type = rawEvent.Type re, Object = obj\<rparr> #
         fst (monitor_body J (ObjectMeta.ResourceVersion (NatsCluster.ObjectMeta obj)) ds),
       snd (monitor_body J (ObjectMeta.ResourceVersion (NatsCluster.ObjectMeta obj)) ds)) \<and>
    (rawEvent.Type re \<notin> {''ADDED'', ''MODIFIED'', ''DELETED''} \<longrightarrow>
       deliver c (ActSend (ObjectMeta.ResourceVersion (NatsCluster.ObjectMeta obj))
           \<lparr>Event.Type = rawEvent.Type re, Object = obj\<rparr>) = c)"
  using assms
  by (simp add: pollEvent_def on_poll_def handle_event_def split: prod.splits)

theorem unknown_type_moves_cursor_only_witness:
  "pollEvent demo_json (Decoded (demo_frame ''BOOKMARK'' ''a2'')) =
      (Some \<lparr>Event.Type = ''BOOKMARK'', Object = demo_cluster ''a'' ''2'' ''0.9.4''\<rparr>, None, None) \<and>
   monitor_body demo_json ''1'' [Decoded (demo_frame ''BOOKMARK'' ''a2''), DecodeEOF] =
      ([ActSend ''2'' \<lparr>Event.Type = ''BOOKMARK'', Object = demo_cluster ''a'' ''2'' ''0.9.4''\<rparr>],
       Inl ''2'') \<and>
   deliver demo_controller
      (ActSend ''2'' \<lparr>Event.Type = ''BOOKMARK'', Object = demo_cluster ''a'' ''2'' ''0.9.4''\<rparr>) =
     demo_controller"
  using unknown_type_moves_cursor_only [of "demo_frame ''BOOKMARK'' ''a2''" demo_json
      "demo_cluster ''a'' ''2'' ''0.9.4''" "''1''" "[DecodeEOF]" demo_controller]
  by (simp add: demo_json_def demo_frame_def demo_cluster_def pollEvent_def on_poll_def)




section \<open>The supervisor's switch\<close>

text \<open>
  C2, as the code has it. For every \<open>ADDED\<close> event, whether or not a runtime exists for
  the event's cluster name, a newly allocated stop channel and a newly built reconciler,
  made from the event's specification, are registered under that name, in place of any
  entries the two maps held for it; the entries of every other name stay as they were.
\<close>

theorem handle_event_ADDED_registers:
  "Event.Type event = ''ADDED'' \<Longrightarrow>
   clusters (handle_event c event) (ObjectMeta.Name (NatsCluster.ObjectMeta (Event.Object event))) =
     Some (Suc (fresh c)) \<and>
   stopChMap (handle_event c event) (ObjectMeta.Name (NatsCluster.ObjectMeta (Event.Object event))) =
     Some (fresh c) \<and>
   effects (handle_event c event) =
     effects c @
       [EffClusterNew (Suc (fresh c)) (ObjectMeta.Name (NatsCluster.ObjectMeta (Event.Object event)))
          (Namespace (Config c)) (NatsCluster.Spec (Event.Object event)) (fresh c)] \<and>
   fresh (handle_event c event) = Suc (Suc (fresh c)) \<and>
   (\<forall>name. name \<noteq> ObjectMeta.Name (NatsCluster.ObjectMeta (Event.Object event)) \<longrightarrow>
      clusters (handle_event c event) name = clusters c name \<and>
      stopChMap (handle_event c event) name = stopChMap c name)"
  by (simp add: handle_event_def Let_def)

theorem handle_event_ADDED_registers_witness:
  "clusters (handle_event
       (handle_event demo_controller
          \<lparr>Event.Type = ''ADDED'', Object = demo_cluster ''a'' ''1'' ''0.9.2''\<rparr>)
       \<lparr>Event.Type = ''ADDED'', Object = demo_cluster ''a'' ''2'' ''0.9.4''\<rparr>) ''a'' = Some 3 \<and>
   stopChMap (handle_event
       (handle_event demo_controller
          \<lparr>Event.Type = ''ADDED'', Object = demo_cluster ''a'' ''1'' ''0.9.2''\<rparr>)
       \<lparr>Event.Type = ''ADDED'', Object = demo_cluster ''a'' ''2'' ''0.9.4''\<rparr>) ''a'' = Some 2 \<and>
   clusters (handle_event
       (handle_event demo_controller
          \<lparr>Event.Type = ''ADDED'', Object = demo_cluster ''a'' ''1'' ''0.9.2''\<rparr>)
       \<lparr>Event.Type = ''ADDED'', Object = demo_cluster ''a'' ''2'' ''0.9.4''\<rparr>) ''b'' = None"
  using handle_event_ADDED_registers
    [of "\<lparr>Event.Type = ''ADDED'', Object = demo_cluster ''a'' ''2'' ''0.9.4''\<rparr>"
        "handle_event demo_controller
          \<lparr>Event.Type = ''ADDED'', Object = demo_cluster ''a'' ''1'' ''0.9.2''\<rparr>"]
  by (simp add: handle_event_def demo_controller_def demo_cluster_def Let_def)

text \<open>
  The claim C2 as it was stated (an \<open>ADDED\<close> event for a name that has a runtime is
  treated as \<open>MODIFIED\<close>, and the runtime is not replaced) fails: after two \<open>ADDED\<close>
  events for the cluster \<open>a\<close>, the runtime 1 that the first one registered has been
  replaced by the runtime 3, two reconcilers have been built for \<open>a\<close> and none has been
  updated, whereas a \<open>MODIFIED\<close> event in the place of the second would have updated the
  runtime 1.
\<close>

theorem ADDED_existing_counterexample:
  "clusters (handle_event demo_controller
       \<lparr>Event.Type = ''ADDED'', Object = demo_cluster ''a'' ''1'' ''0.9.2''\<rparr>) ''a'' = Some 1 \<and>
   clusters (handle_event
       (handle_event demo_controller
          \<lparr>Event.Type = ''ADDED'', Object = demo_cluster ''a'' ''1'' ''0.9.2''\<rparr>)
       \<lparr>Event.Type = ''ADDED'', Object = demo_cluster ''a'' ''2'' ''0.9.4''\<rparr>) ''a'' = Some 3 \<and>
   effects (handle_event
       (handle_event demo_controller
          \<lparr>Event.Type = ''ADDED'', Object = demo_cluster ''a'' ''1'' ''0.9.2''\<rparr>)
       \<lparr>Event.Type = ''ADDED'', Object = demo_cluster ''a'' ''2'' ''0.9.4''\<rparr>) =
     [EffClusterNew 1 ''a'' ''default'' (NatsCluster.Spec (demo_cluster ''a'' ''1'' ''0.9.2'')) 0,
      EffClusterNew 3 ''a'' ''default'' (NatsCluster.Spec (demo_cluster ''a'' ''2'' ''0.9.4'')) 2] \<and>
   effects (handle_event
       (handle_event demo_controller
          \<lparr>Event.Type = ''ADDED'', Object = demo_cluster ''a'' ''1'' ''0.9.2''\<rparr>)
       \<lparr>Event.Type = ''MODIFIED'', Object = demo_cluster ''a'' ''2'' ''0.9.4''\<rparr>) =
     [EffClusterNew 1 ''a'' ''default'' (NatsCluster.Spec (demo_cluster ''a'' ''1'' ''0.9.2'')) 0,
      EffClusterUpdate 1 (NatsCluster.Spec (demo_cluster ''a'' ''2'' ''0.9.4''))]"
  by (simp add: handle_event_def demo_controller_def demo_cluster_def Let_def)

section \<open>Creating a pod\<close>

text \<open>
  C5. \<open>CreateAndWaitPod\<close> creates the pod first and then watches it; when the pod has
  been created and either the watch cannot be opened or the wait ends with an error
  (the deadline), the function returns that error and has issued no delete: its calls
  are the create, the watch and, if the watch was opened, the wait with the timeout.
\<close>

theorem CreateAndWaitPod_leaves_pod:
  assumes "pods_create kclient ns pod = Inr createdPod"
    and "pods_watch kclient ns (ObjectMeta.Name (Pod.ObjectMeta createdPod)) = Inl err \<or>
         (\<exists>w. pods_watch kclient ns (ObjectMeta.Name (Pod.ObjectMeta createdPod)) = Inr w \<and>
              watch_until kclient timeout w = Some err)"
  shows "snd (CreateAndWaitPod kclient ns pod timeout) = Some err \<and>
    (\<exists>rest. fst (CreateAndWaitPod kclient ns pod timeout) =
       PodsCreate ns pod # PodsWatch ns (ObjectMeta.Name (Pod.ObjectMeta createdPod)) # rest) \<and>
    (\<forall>w. pods_watch kclient ns (ObjectMeta.Name (Pod.ObjectMeta createdPod)) = Inr w \<longrightarrow>
       fst (CreateAndWaitPod kclient ns pod timeout) =
         [PodsCreate ns pod, PodsWatch ns (ObjectMeta.Name (Pod.ObjectMeta createdPod)),
          WatchUntil timeout w]) \<and>
    \<not> list_ex is_delete (fst (CreateAndWaitPod kclient ns pod timeout))"
  using assms by (auto simp: CreateAndWaitPod_def)

theorem CreateAndWaitPod_leaves_pod_witness:
  "snd (CreateAndWaitPod demo_client ''default''
          (MakePodSpec demo_constants ''a'' (NatsCluster.Spec (demo_cluster ''a'' ''1'' ''0.9.2''))) 60) =
     Some ErrWaitTimeout \<and>
   fst (CreateAndWaitPod demo_client ''default''
          (MakePodSpec demo_constants ''a'' (NatsCluster.Spec (demo_cluster ''a'' ''1'' ''0.9.2''))) 60) =
     [PodsCreate ''default''
        (MakePodSpec demo_constants ''a'' (NatsCluster.Spec (demo_cluster ''a'' ''1'' ''0.9.2''))),
      PodsWatch ''default'' ''a-x7k2q'',
      WatchUntil 60 0] \<and>
   \<not> list_ex is_delete (fst (CreateAndWaitPod demo_client ''default''
          (MakePodSpec demo_constants ''a'' (NatsCluster.Spec (demo_cluster ''a'' ''1'' ''0.9.2''))) 60))"
proof -
  let ?pod = "MakePodSpec demo_constants ''a'' (NatsCluster.Spec (demo_cluster ''a'' ''1'' ''0.9.2''))"
  let ?created = "?pod\<lparr>Pod.ObjectMeta := (Pod.ObjectMeta ?pod)
           \<lparr>ObjectMeta.Name := GenerateName (Pod.ObjectMeta ?pod) @ ''x7k2q''\<rparr>\<rparr>"
  have n: "ObjectMeta.Name (Pod.ObjectMeta ?created) = ''a-x7k2q''"
    by (simp add: MakePodSpec_def SetNATSVersion_def demo_cluster_def Let_def)
  have c: "pods_create demo_client ''default'' ?pod = Inr ?created"
    by (simp add: demo_client_def)
  have w0: "pods_watch demo_client ''default'' ''a-x7k2q'' = Inr 0"
    by (simp add: demo_client_def)
  have w: "pods_watch demo_client ''default'' (ObjectMeta.Name (Pod.ObjectMeta ?created)) = Inl ErrWaitTimeout \<or>
         (\<exists>w. pods_watch demo_client ''default'' (ObjectMeta.Name (Pod.ObjectMeta ?created)) = Inr w \<and>
              watch_until demo_client 60 w = Some ErrWaitTimeout)"
    by (simp add: demo_client_def)
  from CreateAndWaitPod_leaves_pod [OF c w] show ?thesis
    unfolding n using w0 by simp
qed

end
